theory Spec2Isabelle
  imports Main
begin

section \<open>Strings\<close>

text \<open>
  A JavaScript string is modelled as a \<open>string\<close>: one \<open>char\<close> per code unit, code units
  below 256. \<open>digit\<close> is the class \<open>[0-9]\<close>, \<open>word_char\<close> the class \<open>\w\<close>, \<open>space_char\<close>
  the class \<open>\s\<close> on these code units (tab, line feed, vertical tab, form feed, carriage
  return, space, no-break space).
\<close>

definition digit :: "char \<Rightarrow> bool" where
  "digit c = (c \<in> set ''0123456789'')"

definition word_char :: "char \<Rightarrow> bool" where
  "word_char c =
     (c \<in> set ''abcdefghijklmnopqrstuvwxyzABCDEFGHIJKLMNOPQRSTUVWXYZ0123456789_'')"

definition space_char :: "char \<Rightarrow> bool" where
  "space_char c =
     (c \<in> set [CHR 0x09, CHR 0x0A, CHR 0x0B, CHR 0x0C, CHR 0x0D, CHR 0x20, CHR 0xA0])"

fun starts_with :: "string \<Rightarrow> string \<Rightarrow> bool" where
  "starts_with s [] = True"
| "starts_with [] (p # ps) = False"
| "starts_with (c # cs) (p # ps) = (c = p \<and> starts_with cs ps)"

text \<open>\<^verbatim>\<open>s.includes(sub)\<close>: \<open>sub\<close> occurs somewhere in \<open>s\<close>.\<close>

fun str_includes :: "string \<Rightarrow> string \<Rightarrow> bool" where
  "str_includes [] sub = (sub = [])"
| "str_includes (c # cs) sub = (starts_with (c # cs) sub \<or> str_includes cs sub)"

section \<open>Session registry\<close>

text \<open>
  The values of \<^verbatim>\<open>connections\<close>. A record written by the pairing handler has every
  field; one written by a transport listener as \<^verbatim>\<open>{...connections.get(k), status}\<close> after
  the key was deleted has the status only, so the other fields are optional.
  \<open>sock\<close> is the index of the transport handle in \<open>socks\<close> below, \<open>saveCreds\<close> the
  credential folder the callback writes to.
\<close>

datatype conn_status = Connecting | Connected | Disconnected

record session =
  sock :: "nat option"
  saveCreds :: "string option"
  status :: conn_status
  socketId :: "string option"
  createdAt :: "int option"

text \<open>
  A transport handle made by \<^verbatim>\<open>makeWASocket\<close>: the \<^verbatim>\<open>cleanPhone\<close> and \<^verbatim>\<open>socketId\<close> its
  listeners have captured, and whether \<^verbatim>\<open>sock.end()\<close> has been called on it.
\<close>

record wa_socket =
  owner :: string
  listener :: "string option"
  ended :: bool

text \<open>The iteration outcomes collected in \<^verbatim>\<open>results\<close>.\<close>

datatype outcome =
    Success int int         \<comment> \<open>\<^verbatim>\<open>{loop, success: true, time}\<close>\<close>
  | Failure int "string option"
      \<comment> \<open>\<^verbatim>\<open>{loop, success: false, error}\<close>, the error \<open>None\<close> when it is \<^verbatim>\<open>undefined\<close>\<close>

text \<open>The events sent with \<^verbatim>\<open>io.to(socketId).emit(name, payload)\<close>.\<close>

datatype event =
    StatusConnected string            \<comment> \<open>\<^verbatim>\<open>status {status: 'connected', deviceInfo: {phone, ...}}\<close>\<close>
  | StatusDisconnected "string option" \<comment> \<open>\<^verbatim>\<open>status {status: 'disconnected', reason}\<close>\<close>
  | PairingCode string                \<comment> \<open>\<^verbatim>\<open>pairing_code {code}\<close>\<close>
  | Progress int int                  \<comment> \<open>\<^verbatim>\<open>progress {current, total}\<close>\<close>
  | ResultOk int string int           \<comment> \<open>\<^verbatim>\<open>result {loop, success: true, result, time}\<close>\<close>
  | ResultFail int "string option"    \<comment> \<open>\<^verbatim>\<open>result {loop, success: false, error}\<close>\<close>
  | Console string                    \<comment> \<open>\<^verbatim>\<open>console {message}\<close>\<close>

text \<open>What a handler does besides changing the registry, in order.\<close>

datatype effect =
    Emit "string option" event   \<comment> \<open>an event pushed to a socket id\<close>
  | Sleep int                    \<comment> \<open>\<^verbatim>\<open>await new Promise(r => setTimeout(r, delay))\<close>\<close>

record server =
  connections :: "string \<rightharpoonup> session"
  socks :: "wa_socket list"
  trace :: "effect list"

definition init :: server where
  "init = \<lparr>connections = Map.empty, socks = [], trace = []\<rparr>"

text \<open>The JSON bodies of the responses, with the HTTP status (200 when none is set).\<close>

datatype body =
    ErrorBody string            \<comment> \<open>\<^verbatim>\<open>{success: false, error}\<close>\<close>
  | PairBody string string      \<comment> \<open>\<^verbatim>\<open>{success: true, message, phone}\<close>\<close>
  | ExecBody "outcome list"     \<comment> \<open>\<^verbatim>\<open>{success: true, results}\<close>\<close>
  | OkBody                      \<comment> \<open>\<^verbatim>\<open>{success: true}\<close>\<close>

type_synonym response = "nat \<times> body"

subsection \<open>Pairing\<close>

text \<open>
  What the pairing handler reads from outside: the clock, and whether opening the
  credential store and the socket (\<^verbatim>\<open>useMultiFileAuthState\<close>, \<^verbatim>\<open>makeWASocket\<close>) throws.
\<close>

record pair_env =
  now :: int
  open_error :: "string option"

definition authDir :: string where
  "authDir = ''auth''"

definition undefined_replace :: string where
  "undefined_replace = ''Cannot read properties of undefined (reading 'replace')''"

text \<open>
  The part of the pairing handler after its checks: open the credential store and the
  socket, store the session as \<^verbatim>\<open>connecting\<close>, register the listeners and answer.
  An earlier handle stored under the same key is replaced in the registry; nothing
  calls \<^verbatim>\<open>end()\<close> on it.
\<close>

definition pairing_open ::
  "pair_env \<Rightarrow> string \<Rightarrow> string option \<Rightarrow> server \<Rightarrow> response \<times> server" where
  "pairing_open env cleanPhone sid st =
     (case open_error env of
        Some msg \<Rightarrow> ((500, ErrorBody msg), st)
      | None \<Rightarrow>
          ((200, PairBody ''Pairing initiated'' cleanPhone),
           st\<lparr>socks := socks st @ [\<lparr>owner = cleanPhone, listener = sid, ended = False\<rparr>],
              connections := (connections st)(cleanPhone \<mapsto>
                \<lparr>sock = Some (length (socks st)),
                 saveCreds = Some (authDir @ ''/'' @ cleanPhone),
                 status = Connecting,
                 socketId = sid,
                 createdAt = Some (now env)\<rparr>)\<rparr>))"

text \<open>
  \<^verbatim>\<open>app.post('/api/pairing', ...)\<close>. \<open>phone\<close> is \<open>None\<close> when the body has no string there:
  \<^verbatim>\<open>phone.replace\<close> throws into the handler's catch-all.
\<close>

definition pairing ::
  "pair_env \<Rightarrow> string option \<Rightarrow> string option \<Rightarrow> server \<Rightarrow> response \<times> server" where
  "pairing env phone sid st =
     (case phone of
        None \<Rightarrow> ((500, ErrorBody undefined_replace), st)
      | Some p \<Rightarrow>
          let cleanPhone = filter digit p in
          if length cleanPhone < 10 \<or> length cleanPhone > 15
          then ((400, ErrorBody ''Nomor tidak valid''), st)
          else
            (case connections st cleanPhone of
               Some existing \<Rightarrow>
                 if status existing = Connected
                 then ((200, PairBody ''Already connected'' cleanPhone), st)
                 else pairing_open env cleanPhone sid st
             | None \<Rightarrow> pairing_open env cleanPhone sid st))"

subsection \<open>Transport listeners, reaping, disconnecting\<close>

text \<open>\<^verbatim>\<open>{...connections.get(cleanPhone), status: s}\<close>: spreading \<^verbatim>\<open>undefined\<close> adds nothing.\<close>

definition with_status :: "session option \<Rightarrow> conn_status \<Rightarrow> session" where
  "with_status old s =
     (case old of
        Some r \<Rightarrow> r\<lparr>status := s\<rparr>
      | None \<Rightarrow> \<lparr>sock = None, saveCreds = None, status = s, socketId = None,
                 createdAt = None\<rparr>)"

text \<open>
  \<^verbatim>\<open>pairingCode.match(/.{1,4}/g).join('-')\<close>: groups of up to four characters, none across
  a line terminator; \<open>None\<close> when there is no group (\<^verbatim>\<open>match\<close> gives \<^verbatim>\<open>null\<close> and \<^verbatim>\<open>join\<close>
  throws into the listener's own catch).
\<close>

definition line_terminator :: "char \<Rightarrow> bool" where
  "line_terminator c = (c \<in> set [CHR 0x0A, CHR 0x0D])"

fun groups4 :: "string \<Rightarrow> string \<Rightarrow> string list" where
  "groups4 acc [] = (if acc = [] then [] else [acc])"
| "groups4 acc (c # cs) =
     (if line_terminator c then (if acc = [] then [] else [acc]) @ groups4 [] cs
      else if length acc = 3 then (acc @ [c]) # groups4 [] cs
      else groups4 (acc @ [c]) cs)"

fun join :: "string \<Rightarrow> string list \<Rightarrow> string" where
  "join sep [] = []"
| "join sep [x] = x"
| "join sep (x # y # ys) = x @ sep @ join sep (y # ys)"

definition format_code :: "string \<Rightarrow> string option" where
  "format_code pairingCode =
     (case groups4 [] pairingCode of [] \<Rightarrow> None | g # gs \<Rightarrow> Some (join ''-'' (g # gs)))"

text \<open>
  The \<^verbatim>\<open>connection.update\<close> listener of handle \<open>h\<close>, for \<^verbatim>\<open>connection === 'open'\<close>.
  \<open>code\<close> is what \<^verbatim>\<open>sock.requestPairingCode\<close> gives, \<open>None\<close> when it throws.
\<close>

definition on_open :: "nat \<Rightarrow> string option \<Rightarrow> server \<Rightarrow> server" where
  "on_open h code st =
     (if h < length (socks st) then
        let cleanPhone = owner (socks st ! h); sid = listener (socks st ! h) in
        st\<lparr>connections := (connections st)(cleanPhone \<mapsto>
              with_status (connections st cleanPhone) Connected),
           trace := trace st @ [Emit sid (StatusConnected cleanPhone)] @
              (case code of
                 None \<Rightarrow> []
               | Some c \<Rightarrow>
                   (case format_code c of
                      None \<Rightarrow> []
                    | Some f \<Rightarrow> [Emit sid (PairingCode f)]))\<rparr>
      else st)"

text \<open>The same listener for \<^verbatim>\<open>connection === 'close'\<close>; the reap it schedules is \<open>reap\<close>.\<close>

definition on_close :: "nat \<Rightarrow> string option \<Rightarrow> server \<Rightarrow> server" where
  "on_close h reason st =
     (if h < length (socks st) then
        let cleanPhone = owner (socks st ! h); sid = listener (socks st ! h) in
        st\<lparr>connections := (connections st)(cleanPhone \<mapsto>
              with_status (connections st cleanPhone) Disconnected),
           trace := trace st @ [Emit sid (StatusDisconnected reason)]\<rparr>
      else st)"

text \<open>The timer set on close, five minutes later.\<close>

definition reap :: "string \<Rightarrow> server \<Rightarrow> server" where
  "reap cleanPhone st =
     (case connections st cleanPhone of
        Some r \<Rightarrow>
          if status r = Disconnected
          then st\<lparr>connections := (connections st)(cleanPhone := None)\<rparr>
          else st
      | None \<Rightarrow> st)"

text \<open>\<^verbatim>\<open>app.post('/api/disconnect', ...)\<close>.\<close>

definition disconnect :: "string \<Rightarrow> server \<Rightarrow> response \<times> server" where
  "disconnect phone st =
     (case connections st phone of
        Some connection \<Rightarrow>
          (case sock connection of
             Some h \<Rightarrow>
               ((200, OkBody),
                st\<lparr>socks := (if h < length (socks st)
                               then (socks st)[h := (socks st ! h)\<lparr>ended := True\<rparr>]
                               else socks st),
                   connections := (connections st)(phone := None)\<rparr>)
           | None \<Rightarrow> ((200, OkBody), st))
      | None \<Rightarrow> ((200, OkBody), st))"

text \<open>The handles opened for a key on which \<^verbatim>\<open>end()\<close> was never called.\<close>

definition live_handles :: "server \<Rightarrow> string \<Rightarrow> wa_socket list" where
  "live_handles st k = filter (\<lambda>s. owner s = k \<and> \<not> ended s) (socks st)"

section \<open>Capability adapter\<close>

text \<open>
  The transport handle as the sandbox's \<^verbatim>\<open>sock\<close> methods use it: \<^verbatim>\<open>sock.sendMessage(to, content)\<close>
  and \<^verbatim>\<open>sock.fetchStatus(jid)\<close>. The contents are the object literals the methods build;
  \<open>Message\<close> is whatever the script hands to \<^verbatim>\<open>sendMessage\<close>. Coordinates are passed
  through unchanged and are written as integers.
\<close>

datatype content =
    Text string                   \<comment> \<open>\<^verbatim>\<open>{text}\<close>\<close>
  | Message string                \<comment> \<open>\<^verbatim>\<open>msg\<close>\<close>
  | Image string string           \<comment> \<open>\<^verbatim>\<open>{image: {url}, caption}\<close>\<close>
  | Video string string           \<comment> \<open>\<^verbatim>\<open>{video: {url}, caption}\<close>\<close>
  | Audio string                  \<comment> \<open>\<^verbatim>\<open>{audio: {url}}\<close>\<close>
  | Contacts string string        \<comment> \<open>\<^verbatim>\<open>{contacts: {displayName, contacts: [{vcard}]}}\<close>\<close>
  | Location int int string       \<comment> \<open>\<^verbatim>\<open>{location: {degreesLatitude, degreesLongitude}, caption}\<close>\<close>
  | Poll string "string list"     \<comment> \<open>\<^verbatim>\<open>{poll: {name, values}}\<close>\<close>
  | Reaction string string        \<comment> \<open>\<^verbatim>\<open>{react: {text, key: {id}}}\<close>\<close>
  | Deletion string               \<comment> \<open>\<^verbatim>\<open>{delete: {id}}\<close>\<close>

datatype sent =
    Delivered string       \<comment> \<open>a message whose \<^verbatim>\<open>key.id\<close> is the string\<close>
  | NoMessage              \<comment> \<open>\<^verbatim>\<open>undefined\<close>\<close>
  | SendThrows string      \<comment> \<open>an error with this \<^verbatim>\<open>message\<close>\<close>
  | SendPending            \<comment> \<open>the promise never settles\<close>

datatype fetched =
    Fetched string         \<comment> \<open>a status object\<close>
  | NoStatus               \<comment> \<open>a falsy value\<close>
  | FetchThrows string
  | FetchPending           \<comment> \<open>the promise never settles\<close>

record transport =
  sendMessage :: "string \<Rightarrow> content \<Rightarrow> sent"
  fetchStatus :: "string \<Rightarrow> fetched"

text \<open>
  What a capability method returns; \<open>Inl m\<close> is \<^verbatim>\<open>throw new Error(m)\<close>. A method awaits
  the transport: its promise settles with a \<open>cap_result\<close>, or never (\<open>None\<close>) when the
  transport's does not.
\<close>

datatype cap_value =
    Sent string            \<comment> \<open>\<^verbatim>\<open>{success: true, id}\<close>\<close>
  | Done                   \<comment> \<open>\<^verbatim>\<open>{success: true}\<close>\<close>
  | UserStatus string      \<comment> \<open>the status object of the transport\<close>
  | UnknownStatus          \<comment> \<open>\<^verbatim>\<open>{status: 'unknown'}\<close>\<close>

type_synonym cap_result = "string + cap_value"

definition undefined_sendMessage :: string where
  "undefined_sendMessage = ''Cannot read properties of undefined (reading 'sendMessage')''"

definition undefined_key :: string where
  "undefined_key = ''Cannot read properties of undefined (reading 'key')''"

text \<open>
  \<^verbatim>\<open>await sock.sendMessage(to, c)\<close> inside a method's \<^verbatim>\<open>try\<close>: the session record may have no
  \<^verbatim>\<open>sock\<close>, and the call then throws a TypeError.
\<close>

definition await_send :: "transport option \<Rightarrow> string \<Rightarrow> content \<Rightarrow> sent" where
  "await_send sk to c =
     (case sk of None \<Rightarrow> SendThrows undefined_sendMessage | Some t \<Rightarrow> sendMessage t to c)"

text \<open>\<^verbatim>\<open>return {success: true, id: result.key.id}\<close>, with the method's \<^verbatim>\<open>catch\<close>.\<close>

definition with_id :: "string \<Rightarrow> sent \<Rightarrow> cap_result option" where
  "with_id gagal r =
     (case r of
        Delivered i \<Rightarrow> Some (Inr (Sent i))
      | NoMessage \<Rightarrow> Some (Inl (gagal @ undefined_key))
      | SendThrows m \<Rightarrow> Some (Inl (gagal @ m))
      | SendPending \<Rightarrow> None)"

text \<open>\<^verbatim>\<open>return {success: true}\<close>, with the method's \<^verbatim>\<open>catch\<close>: the result is not read.\<close>

definition without_id :: "string \<Rightarrow> sent \<Rightarrow> cap_result option" where
  "without_id gagal r =
     (case r of
        Delivered i \<Rightarrow> Some (Inr Done)
      | NoMessage \<Rightarrow> Some (Inr Done)
      | SendThrows m \<Rightarrow> Some (Inl (gagal @ m))
      | SendPending \<Rightarrow> None)"

text \<open>\<^verbatim>\<open>caption || ''\<close>; \<open>None\<close> is an argument left out.\<close>

definition or_empty :: "string option \<Rightarrow> string" where
  "or_empty caption = (case caption of None \<Rightarrow> [] | Some c \<Rightarrow> c)"

definition sendText :: "transport option \<Rightarrow> string \<Rightarrow> string \<Rightarrow> cap_result option" where
  "sendText sk to text = with_id ''Gagal kirim: '' (await_send sk to (Text text))"

definition sendMessage_cap :: "transport option \<Rightarrow> string \<Rightarrow> string \<Rightarrow> cap_result option" where
  "sendMessage_cap sk to msg = with_id ''Gagal kirim: '' (await_send sk to (Message msg))"

definition sendImage ::
  "transport option \<Rightarrow> string \<Rightarrow> string \<Rightarrow> string option \<Rightarrow> cap_result option" where
  "sendImage sk to url caption =
     with_id ''Gagal kirim gambar: '' (await_send sk to (Image url (or_empty caption)))"

definition sendVideo ::
  "transport option \<Rightarrow> string \<Rightarrow> string \<Rightarrow> string option \<Rightarrow> cap_result option" where
  "sendVideo sk to url caption =
     with_id ''Gagal kirim video: '' (await_send sk to (Video url (or_empty caption)))"

definition sendAudio :: "transport option \<Rightarrow> string \<Rightarrow> string \<Rightarrow> cap_result option" where
  "sendAudio sk to url = with_id ''Gagal kirim audio: '' (await_send sk to (Audio url))"

definition vcard :: "string \<Rightarrow> string \<Rightarrow> string" where
  "vcard name number =
     ''BEGIN:VCARD'' @ [CHR 0x0A] @
     ''VERSION:3.0'' @ [CHR 0x0A] @
     ''FN:'' @ name @ [CHR 0x0A] @
     ''TEL;type=CELL;waid='' @ number @ '':'' @ number @ [CHR 0x0A] @
     ''END:VCARD''"

definition sendContact ::
  "transport option \<Rightarrow> string \<Rightarrow> string \<Rightarrow> string \<Rightarrow> cap_result option" where
  "sendContact sk to name number =
     with_id ''Gagal kirim kontak: '' (await_send sk to (Contacts name (vcard name number)))"

definition sendLocation ::
  "transport option \<Rightarrow> string \<Rightarrow> int \<Rightarrow> int \<Rightarrow> string option \<Rightarrow> cap_result option" where
  "sendLocation sk to lat lng name =
     with_id ''Gagal kirim lokasi: '' (await_send sk to (Location lat lng (or_empty name)))"

definition sendPoll ::
  "transport option \<Rightarrow> string \<Rightarrow> string \<Rightarrow> string list \<Rightarrow> cap_result option" where
  "sendPoll sk to question options =
     with_id ''Gagal kirim poll: '' (await_send sk to (Poll question options))"

definition react :: "transport option \<Rightarrow> string \<Rightarrow> string \<Rightarrow> string \<Rightarrow> cap_result option" where
  "react sk to messageId emoji =
     without_id ''Gagal react: '' (await_send sk to (Reaction emoji messageId))"

definition deleteMessage :: "transport option \<Rightarrow> string \<Rightarrow> string \<Rightarrow> cap_result option" where
  "deleteMessage sk to messageId =
     without_id ''Gagal hapus: '' (await_send sk to (Deletion messageId))"

definition getUserStatus :: "transport option \<Rightarrow> string \<Rightarrow> cap_result option" where
  "getUserStatus sk jid =
     (case sk of
        None \<Rightarrow> Some (Inr UnknownStatus)
      | Some t \<Rightarrow>
          (case fetchStatus t jid of
             Fetched s \<Rightarrow> Some (Inr (UserStatus s))
           | NoStatus \<Rightarrow> Some (Inr UnknownStatus)
           | FetchThrows m \<Rightarrow> Some (Inr UnknownStatus)
           | FetchPending \<Rightarrow> None))"

text \<open>A call of a method of the sandbox's \<^verbatim>\<open>sock\<close> by a script, with its arguments.\<close>

datatype call =
    CallSendText string string
  | CallSendMessage string string
  | CallSendImage string string "string option"
  | CallSendVideo string string "string option"
  | CallSendAudio string string
  | CallSendContact string string string
  | CallSendLocation string int int "string option"
  | CallSendPoll string string "string list"
  | CallReact string string string
  | CallDeleteMessage string string
  | CallGetUserStatus string

fun invoke :: "transport option \<Rightarrow> call \<Rightarrow> cap_result option" where
  "invoke sk (CallSendText to text) = sendText sk to text"
| "invoke sk (CallSendMessage to msg) = sendMessage_cap sk to msg"
| "invoke sk (CallSendImage to url caption) = sendImage sk to url caption"
| "invoke sk (CallSendVideo to url caption) = sendVideo sk to url caption"
| "invoke sk (CallSendAudio to url) = sendAudio sk to url"
| "invoke sk (CallSendContact to name number) = sendContact sk to name number"
| "invoke sk (CallSendLocation to lat lng name) = sendLocation sk to lat lng name"
| "invoke sk (CallSendPoll to question options) = sendPoll sk to question options"
| "invoke sk (CallReact to messageId emoji) = react sk to messageId emoji"
| "invoke sk (CallDeleteMessage to messageId) = deleteMessage sk to messageId"
| "invoke sk (CallGetUserStatus jid) = getUserStatus sk jid"

text \<open>The property name of the method a call goes to.\<close>

fun method_name :: "call \<Rightarrow> string" where
  "method_name (CallSendText to text) = ''sendText''"
| "method_name (CallSendMessage to msg) = ''sendMessage''"
| "method_name (CallSendImage to url caption) = ''sendImage''"
| "method_name (CallSendVideo to url caption) = ''sendVideo''"
| "method_name (CallSendAudio to url) = ''sendAudio''"
| "method_name (CallSendContact to name number) = ''sendContact''"
| "method_name (CallSendLocation to lat lng name) = ''sendLocation''"
| "method_name (CallSendPoll to question options) = ''sendPoll''"
| "method_name (CallReact to messageId emoji) = ''react''"
| "method_name (CallDeleteMessage to messageId) = ''deleteMessage''"
| "method_name (CallGetUserStatus jid) = ''getUserStatus''"

text \<open>The recipient of a call: its first argument.\<close>

fun recipient :: "call \<Rightarrow> string" where
  "recipient (CallSendText to text) = to"
| "recipient (CallSendMessage to msg) = to"
| "recipient (CallSendImage to url caption) = to"
| "recipient (CallSendVideo to url caption) = to"
| "recipient (CallSendAudio to url) = to"
| "recipient (CallSendContact to name number) = to"
| "recipient (CallSendLocation to lat lng name) = to"
| "recipient (CallSendPoll to question options) = to"
| "recipient (CallReact to messageId emoji) = to"
| "recipient (CallDeleteMessage to messageId) = to"
| "recipient (CallGetUserStatus jid) = jid"

text \<open>The send family: the methods whose name begins with \<^verbatim>\<open>send\<close>.\<close>

definition send_family :: "call \<Rightarrow> bool" where
  "send_family c = starts_with (method_name c) ''send''"

text \<open>The words a method puts before the transport's message when it fails.\<close>

fun failed_operation :: "call \<Rightarrow> string" where
  "failed_operation (CallSendText to text) = ''Gagal kirim: ''"
| "failed_operation (CallSendMessage to msg) = ''Gagal kirim: ''"
| "failed_operation (CallSendImage to url caption) = ''Gagal kirim gambar: ''"
| "failed_operation (CallSendVideo to url caption) = ''Gagal kirim video: ''"
| "failed_operation (CallSendAudio to url) = ''Gagal kirim audio: ''"
| "failed_operation (CallSendContact to name number) = ''Gagal kirim kontak: ''"
| "failed_operation (CallSendLocation to lat lng name) = ''Gagal kirim lokasi: ''"
| "failed_operation (CallSendPoll to question options) = ''Gagal kirim poll: ''"
| "failed_operation (CallReact to messageId emoji) = ''Gagal react: ''"
| "failed_operation (CallDeleteMessage to messageId) = ''Gagal hapus: ''"
| "failed_operation (CallGetUserStatus jid) = []"

section \<open>Script execution\<close>

subsection \<open>The sandbox\<close>

text \<open>
  The values bound in the \<^verbatim>\<open>sandbox\<close> object: the capability object, whose methods close
  over the session's handle; the target; the console, whose \<^verbatim>\<open>log\<close> emits to the caller's
  socket id; and objects of the host handed over as they are.
\<close>

datatype binding =
    Capability "nat option" "string list"   \<comment> \<open>the handle, the method names\<close>
  | Target string
  | ConsoleObject "string option" "string list"
  | Host string

definition capability_methods :: "string list" where
  "capability_methods =
     [''sendText'', ''sendMessage'', ''sendImage'', ''sendVideo'', ''sendAudio'',
      ''sendContact'', ''sendLocation'', ''sendPoll'', ''react'', ''deleteMessage'',
      ''getUserStatus'']"

record vm =
  timeout :: nat
  sandbox :: "(string \<times> binding) list"

text \<open>\<^verbatim>\<open>new VM({timeout: 30000, sandbox: {...}})\<close>.\<close>

definition new_VM :: "nat option \<Rightarrow> string \<Rightarrow> string option \<Rightarrow> vm" where
  "new_VM sk jid sid =
     \<lparr>timeout = 30000,
      sandbox =
        [(''sock'', Capability sk capability_methods),
         (''target'', Target jid),
         (''console'', ConsoleObject sid [''log'']),
         (''Buffer'', Host ''Buffer''),
         (''setTimeout'', Host ''setTimeout''),
         (''Date'', Host ''Date''),
         (''Math'', Host ''Math''),
         (''JSON'', Host ''JSON'')]\<rparr>"







subsection \<open>The shape of the script\<close>

text \<open>
  \<^verbatim>\<open>code.match(/async function\s+(\w+)/)\<close>: the leftmost place where \<^verbatim>\<open>async function\<close> is
  followed by white space and a word character; the group is the longest run of
  word characters there.
\<close>

definition match_here :: "string \<Rightarrow> string option" where
  "match_here s =
     (if starts_with s ''async function'' then
        let rest = drop 14 s in
        (case dropWhile space_char rest of
           [] \<Rightarrow> None
         | a # as \<Rightarrow>
             if takeWhile space_char rest \<noteq> [] \<and> word_char a
             then Some (takeWhile word_char (a # as))
             else None)
      else None)"

fun fnMatch :: "string \<Rightarrow> string option" where
  "fnMatch [] = None"
| "fnMatch (c # cs) =
     (case match_here (c # cs) of Some fnName \<Rightarrow> Some fnName | None \<Rightarrow> fnMatch cs)"

text \<open>The text given to \<^verbatim>\<open>vm.run\<close>: the script, then a call of its function.\<close>

definition script_text :: "string \<Rightarrow> string \<Rightarrow> string" where
  "script_text c fnName =
     [CHR 0x0A] @
     replicate 20 CHR '' '' @ c @ [CHR 0x0A] @
     replicate 20 CHR '' '' @ ''(async () => {'' @ [CHR 0x0A] @
     replicate 24 CHR '' '' @ ''try {'' @ [CHR 0x0A] @
     replicate 28 CHR '' '' @ ''return await '' @ fnName @ ''(sock, target);'' @ [CHR 0x0A] @
     replicate 24 CHR '' '' @ ''} catch (err) {'' @ [CHR 0x0A] @
     replicate 28 CHR '' '' @ ''throw new Error(err.message);'' @ [CHR 0x0A] @
     replicate 24 CHR '' '' @ ''}'' @ [CHR 0x0A] @
     replicate 20 CHR '' '' @ ''})();'' @ [CHR 0x0A] @
     replicate 16 CHR '' ''"

subsection \<open>One run of the script\<close>

text \<open>
  What \<^verbatim>\<open>await vm.run(text)\<close> does is the script's and the library's; the handler sees
  of it the \<^verbatim>\<open>console.log\<close> calls made meanwhile (each the list of its arguments as
  strings), the time it took, and how it settled: with a value, of which the handler
  uses \<^verbatim>\<open>JSON.stringify\<close> only, or with an error (thrown by \<^verbatim>\<open>vm.run\<close>, as on a syntax
  error or a timeout, or a rejection of the promise), of which it uses the message.
  The promise of a script may also never settle; the \<^verbatim>\<open>await\<close> then never returns.
\<close>

text \<open>
  A thrown value, as far as the handler's \<^verbatim>\<open>catch\<close> reads it: it reads \<^verbatim>\<open>err.message\<close>. An
  error thrown inside the script's function comes wrapped in a new \<^verbatim>\<open>Error\<close> by the text
  the handler appends; what the script throws at its top level comes as it is.
\<close>

datatype thrown =
    ErrorWith string      \<comment> \<open>an object whose \<^verbatim>\<open>message\<close> is this string\<close>
  | Messageless           \<comment> \<open>a value whose \<^verbatim>\<open>message\<close> is \<^verbatim>\<open>undefined\<close>, as a string or a number\<close>
  | ThrownNull            \<comment> \<open>\<^verbatim>\<open>null\<close>\<close>
  | ThrownUndefined       \<comment> \<open>\<^verbatim>\<open>undefined\<close>\<close>

definition null_message :: string where
  "null_message = ''Cannot read properties of null (reading 'message')''"

definition undefined_message :: string where
  "undefined_message = ''Cannot read properties of undefined (reading 'message')''"

text \<open>\<^verbatim>\<open>err.message\<close>: \<open>Inl\<close> the message of the TypeError that reading it throws.\<close>

definition message_of :: "thrown \<Rightarrow> string + string option" where
  "message_of t =
     (case t of
        ErrorWith m \<Rightarrow> Inr (Some m)
      | Messageless \<Rightarrow> Inr None
      | ThrownNull \<Rightarrow> Inl null_message
      | ThrownUndefined \<Rightarrow> Inl undefined_message)"

datatype returned =
    Json string           \<comment> \<open>\<^verbatim>\<open>JSON.stringify(result)\<close> is this string\<close>
  | NoJson                \<comment> \<open>it is \<^verbatim>\<open>undefined\<close>, as for \<^verbatim>\<open>undefined\<close> itself\<close>
  | JsonThrows thrown     \<comment> \<open>it throws, as on a cyclic object\<close>

datatype settlement =
    Resolved returned
  | Rejected thrown
  | Pending

record run =
  console_calls :: "string list list"
  elapsed :: int
  settled :: settlement

text \<open>The \<open>i\<close>-th call of \<^verbatim>\<open>vm.run\<close> of a request, for the machine and the text given.\<close>

type_synonym runner = "vm \<Rightarrow> string \<Rightarrow> int \<Rightarrow> run"

subsection \<open>The loop\<close>

text \<open>
  The state of the handler in its loop: the outcomes pushed, the effects so far,
  whether it has stopped for good at an \<^verbatim>\<open>await\<close> of a run that never settles, and the
  message of an error thrown out of the loop, into the handler's outer \<^verbatim>\<open>catch\<close>.
\<close>

record loop_state =
  results :: "outcome list"
  emitted :: "effect list"
  waiting :: bool
  fault :: "string option"

definition stopped :: "loop_state \<Rightarrow> bool" where
  "stopped s = (waiting s \<or> fault s \<noteq> None)"

definition undefined_substring :: string where
  "undefined_substring = ''Cannot read properties of undefined (reading 'substring')''"

text \<open>
  The \<^verbatim>\<open>catch\<close> of an iteration. It builds the outcome from \<^verbatim>\<open>err.message\<close> first; when
  reading that throws, nothing is pushed or emitted and the error leaves the loop.
\<close>

definition caught :: "string option \<Rightarrow> int \<Rightarrow> thrown \<Rightarrow> loop_state \<Rightarrow> loop_state" where
  "caught sid i t s =
     (case message_of t of
        Inl m \<Rightarrow> s\<lparr>fault := Some m\<rparr>
      | Inr m \<Rightarrow>
          s\<lparr>results := results s @ [Failure i m],
            emitted := emitted s @ [Emit sid (ResultFail i m)]\<rparr>)"

text \<open>
  The \<^verbatim>\<open>try\<close> of iteration \<open>i\<close>: the progress event, the run, the outcome pushed to
  \<^verbatim>\<open>results\<close>, then the result event with \<^verbatim>\<open>JSON.stringify(result).substring(0, 200)\<close>,
  which is evaluated after the push.
\<close>

definition iteration :: "string option \<Rightarrow> int \<Rightarrow> run \<Rightarrow> int \<Rightarrow> loop_state \<Rightarrow> loop_state" where
  "iteration sid tot r i s =
     (let s1 = s\<lparr>emitted := emitted s @ [Emit sid (Progress i tot)] @
                   map (\<lambda>args. Emit sid (Console (join '' '' args))) (console_calls r)\<rparr>
      in case settled r of
           Pending \<Rightarrow> s1\<lparr>waiting := True\<rparr>
         | Rejected t \<Rightarrow> caught sid i t s1
         | Resolved v \<Rightarrow>
             let s2 = s1\<lparr>results := results s1 @ [Success i (elapsed r)]\<rparr>
             in (case v of
                   Json j \<Rightarrow>
                     s2\<lparr>emitted := emitted s2 @
                          [Emit sid (ResultOk i (take 200 j) (elapsed r))]\<rparr>
                 | NoJson \<Rightarrow> caught sid i (ErrorWith undefined_substring) s2
                 | JsonThrows t \<Rightarrow> caught sid i t s2))"

text \<open>\<^verbatim>\<open>if (i < loop) await new Promise(r => setTimeout(r, delay))\<close>.\<close>

definition pause :: "int \<Rightarrow> int \<Rightarrow> int \<Rightarrow> loop_state \<Rightarrow> loop_state" where
  "pause tot d i s = (if i < tot then s\<lparr>emitted := emitted s @ [Sleep d]\<rparr> else s)"

text \<open>
  \<^verbatim>\<open>for (let i = 1; i <= loop; i++)\<close>, from \<open>i\<close> on. It goes no further once an iteration
  waits for ever or has thrown out of its \<^verbatim>\<open>catch\<close>.
\<close>

function run_loop ::
  "(int \<Rightarrow> run) \<Rightarrow> string option \<Rightarrow> int \<Rightarrow> int \<Rightarrow> int \<Rightarrow> loop_state \<Rightarrow> loop_state" where
  "run_loop f sid tot d i s =
     (if i \<le> tot
      then (if stopped (iteration sid tot (f i) i s)
            then iteration sid tot (f i) i s
            else run_loop f sid tot d (i + 1) (pause tot d i (iteration sid tot (f i) i s)))
      else s)"
  by pat_completeness auto
termination
  by (relation "measure (\<lambda>(f, sid, tot, d, i, s). nat (tot + 1 - i))") auto

declare run_loop.simps [simp del]

subsection \<open>The handler\<close>

text \<open>
  The body of an execute request. A field is \<open>None\<close> when the body has no value of the
  type there; \<^verbatim>\<open>loop\<close> and \<^verbatim>\<open>delay\<close> then take their defaults.
\<close>

record exec_body =
  phone :: "string option"
  target :: "string option"
  code :: "string option"
  loop :: "int option"
  delay :: "int option"

definition undefined_includes :: string where
  "undefined_includes = ''Cannot read properties of undefined (reading 'includes')''"

definition not_connected :: response where
  "not_connected = (400, ErrorBody ''WhatsApp tidak terhubung'')"

definition malformed_script :: response where
  "malformed_script = (400, ErrorBody ''Format: async function nama(sock, target)'')"

definition name_not_found :: response where
  "name_not_found = (400, ErrorBody ''Nama function tidak ditemukan'')"

text \<open>
  The checks before the loop: \<open>Inl\<close> the response that ends the request there,
  \<open>Inr\<close> the handle of the session, the jid, the script and the name of its function.
\<close>

definition validate :: "exec_body \<Rightarrow> server \<Rightarrow> response + (nat option \<times> string \<times> string \<times> string)" where
  "validate b st =
     (case (case phone b of None \<Rightarrow> None | Some p \<Rightarrow> connections st p) of
        None \<Rightarrow> Inl not_connected
      | Some connection \<Rightarrow>
          if status connection \<noteq> Connected then Inl not_connected
          else
            (case target b of
               None \<Rightarrow> Inl (500, ErrorBody undefined_includes)
             | Some t \<Rightarrow>
                 let jid = (if str_includes t ''@s.whatsapp.net'' then t
                            else t @ ''@s.whatsapp.net'')
                 in (case code b of
                       None \<Rightarrow> Inl (500, ErrorBody undefined_includes)
                     | Some c \<Rightarrow>
                         if \<not> str_includes c ''async function'' \<or>
                            \<not> str_includes c ''sock, target''
                         then Inl malformed_script
                         else
                           (case fnMatch c of
                              None \<Rightarrow> Inl name_not_found
                            | Some fnName \<Rightarrow> Inr (sock connection, jid, c, fnName)))))"

definition the_default :: "'a \<Rightarrow> 'a option \<Rightarrow> 'a" where
  "the_default d x = (case x of None \<Rightarrow> d | Some v \<Rightarrow> v)"

text \<open>
  \<^verbatim>\<open>app.post('/api/execute', ...)\<close>. The response is \<open>None\<close> when the request is never
  answered, the handler waiting for a run that does not settle; it is the 500 of the
  outer \<^verbatim>\<open>catch\<close> when an error has left the loop.
\<close>

definition execute ::
  "runner \<Rightarrow> exec_body \<Rightarrow> string option \<Rightarrow> server \<Rightarrow> response option \<times> server" where
  "execute vm_run b sid st =
     (case validate b st of
        Inl r \<Rightarrow> (Some r, st)
      | Inr (sk, jid, c, fnName) \<Rightarrow>
          let machine = new_VM sk jid sid;
              text = script_text c fnName;
              s = run_loop (vm_run machine text) sid (the_default 1 (loop b))
                    (the_default 1000 (delay b)) 1
                    \<lparr>results = [], emitted = [], waiting = False, fault = None\<rparr>
          in (if waiting s then None
              else (case fault s of
                      Some m \<Rightarrow> Some (500, ErrorBody m)
                    | None \<Rightarrow> Some (200, ExecBody (results s))),
              st\<lparr>trace := trace st @ emitted s\<rparr>))"

section \<open>The notions of the properties\<close>

subsection \<open>Reachable states of the server\<close>

text \<open>
  The server starts with an empty registry; each request and each event of a transport
  handle or timer is one step. The steps are taken in any order, for any arguments.
\<close>

inductive reachable :: "server \<Rightarrow> bool" where
  start: "reachable init"
| paired: "reachable st \<Longrightarrow> reachable (snd (pairing env p sid st))"
| opened: "reachable st \<Longrightarrow> reachable (on_open h c st)"
| closed: "reachable st \<Longrightarrow> reachable (on_close h reason st)"
| reaped: "reachable st \<Longrightarrow> reachable (reap k st)"
| disconnected: "reachable st \<Longrightarrow> reachable (snd (disconnect p st))"
| executed: "reachable st \<Longrightarrow> reachable (snd (execute vm_run b sid st))"

text \<open>
  What holds of the registry in every reachable state: its keys are digit strings, the
  handle a record names was opened for the record's key, and handles are opened for
  digit strings only.
\<close>

definition registry_invariant :: "server \<Rightarrow> bool" where
  "registry_invariant st =
     ((\<forall>k r. connections st k = Some r \<longrightarrow>
          list_all digit k \<and>
          (\<forall>h. sock r = Some h \<longrightarrow> h < length (socks st) \<and> owner (socks st ! h) = k)) \<and>
      (\<forall>s \<in> set (socks st). list_all digit (owner s)))"

subsection \<open>Events and outcomes of a request\<close>

text \<open>The effects an execute request adds to the trace.\<close>

definition emitted_by :: "runner \<Rightarrow> exec_body \<Rightarrow> string option \<Rightarrow> server \<Rightarrow> effect list" where
  "emitted_by vm_run b sid st =
     drop (length (trace st)) (trace (snd (execute vm_run b sid st)))"

text \<open>The iteration index of a progress event and of a result event.\<close>

fun progress_index :: "effect \<Rightarrow> int option" where
  "progress_index (Emit sid (Progress i n)) = Some i"
| "progress_index e = None"

fun result_index :: "effect \<Rightarrow> int option" where
  "result_index (Emit sid (ResultOk i r t)) = Some i"
| "result_index (Emit sid (ResultFail i m)) = Some i"
| "result_index e = None"

definition progress_indices :: "effect list \<Rightarrow> int list" where
  "progress_indices es = List.map_filter progress_index es"

definition result_indices :: "effect list \<Rightarrow> int list" where
  "result_indices es = List.map_filter result_index es"

text \<open>The fields of an outcome object: its index, its flag, its property names.\<close>

fun index :: "outcome \<Rightarrow> int" where
  "index (Success i t) = i"
| "index (Failure i m) = i"



text \<open>What one iteration appends to \<^verbatim>\<open>results\<close> and emits, read off \<open>iteration\<close>.\<close>

definition failure_of :: "int \<Rightarrow> thrown \<Rightarrow> outcome list" where
  "failure_of i t = (case message_of t of Inl m \<Rightarrow> [] | Inr m \<Rightarrow> [Failure i m])"

definition recorded :: "int \<Rightarrow> run \<Rightarrow> outcome list" where
  "recorded i r =
     (case settled r of
        Pending \<Rightarrow> []
      | Rejected t \<Rightarrow> failure_of i t
      | Resolved v \<Rightarrow>
          Success i (elapsed r) #
            (case v of
               Json j \<Rightarrow> []
             | NoJson \<Rightarrow> [Failure i (Some undefined_substring)]
             | JsonThrows t \<Rightarrow> failure_of i t))"

definition failure_event :: "string option \<Rightarrow> int \<Rightarrow> thrown \<Rightarrow> effect list" where
  "failure_event sid i t =
     (case message_of t of Inl m \<Rightarrow> [] | Inr m \<Rightarrow> [Emit sid (ResultFail i m)])"

definition reported :: "string option \<Rightarrow> int \<Rightarrow> run \<Rightarrow> effect list" where
  "reported sid i r =
     (case settled r of
        Pending \<Rightarrow> []
      | Rejected t \<Rightarrow> failure_event sid i t
      | Resolved v \<Rightarrow>
          (case v of
             Json j \<Rightarrow> [Emit sid (ResultOk i (take 200 j) (elapsed r))]
           | NoJson \<Rightarrow> [Emit sid (ResultFail i (Some undefined_substring))]
           | JsonThrows t \<Rightarrow> failure_event sid i t))"

text \<open>A thrown value of which the \<^verbatim>\<open>catch\<close> can read the message.\<close>

definition readable :: "thrown \<Rightarrow> bool" where
  "readable t = (case message_of t of Inl m \<Rightarrow> False | Inr m \<Rightarrow> True)"

text \<open>
  A run after which the loop goes on: it settles, and what it throws, or what
  serialising its value throws, is a value of which the \<^verbatim>\<open>catch\<close> can read the message.
\<close>

definition goes_on :: "settlement \<Rightarrow> bool" where
  "goes_on x =
     (case x of
        Pending \<Rightarrow> False
      | Rejected t \<Rightarrow> readable t
      | Resolved v \<Rightarrow>
          (case v of Json j \<Rightarrow> True | NoJson \<Rightarrow> True | JsonThrows t \<Rightarrow> readable t))"

definition completes :: "run \<Rightarrow> bool" where
  "completes r = goes_on (settled r)"

text \<open>All the effects of iteration \<open>i\<close> and of the pause after it, for a run that completes.\<close>

definition step_effects :: "string option \<Rightarrow> int \<Rightarrow> int \<Rightarrow> int \<Rightarrow> run \<Rightarrow> effect list" where
  "step_effects sid tot d i r =
     Emit sid (Progress i tot) #
     map (\<lambda>args. Emit sid (Console (join '' '' args))) (console_calls r) @
     reported sid i r @ (if i < tot then [Sleep d] else [])"

text \<open>
  A run after which the result event can be built from what the run gave: it rejects
  with a value whose message can be read, or it resolves with a value that has a JSON
  text.
\<close>

definition serialisable :: "run \<Rightarrow> bool" where
  "serialisable r =
     (case settled r of
        Pending \<Rightarrow> False
      | Rejected t \<Rightarrow> readable t
      | Resolved v \<Rightarrow> (case v of Json j \<Rightarrow> True | NoJson \<Rightarrow> False | JsonThrows t \<Rightarrow> False))"

subsection \<open>The specification's words\<close>



text \<open>
  An async function declaration whose parameter list has a parameter for the capability
  and one for the target, read as generously as the words allow: \<^verbatim>\<open>async function\<close>,
  white space, a name, a parenthesis, and at least two parameters before the closing
  parenthesis, whatever their names.
\<close>

fun split_commas :: "string \<Rightarrow> string \<Rightarrow> string list" where
  "split_commas acc [] = [acc]"
| "split_commas acc (c # cs) =
     (if c = CHR '','' then acc # split_commas [] cs else split_commas (acc @ [c]) cs)"

definition parameters_here :: "string \<Rightarrow> string list option" where
  "parameters_here s =
     (case match_here s of
        None \<Rightarrow> None
      | Some fnName \<Rightarrow>
          (case dropWhile space_char
                  (dropWhile word_char (dropWhile space_char (drop 14 s))) of
             [] \<Rightarrow> None
           | a # as \<Rightarrow>
               if a = CHR ''(''
               then Some (filter (\<lambda>q. \<not> list_all space_char q)
                            (split_commas [] (takeWhile (\<lambda>x. x \<noteq> CHR '')'') as)))
               else None))"

fun spec_required_declaration :: "string \<Rightarrow> bool" where
  "spec_required_declaration [] = False"
| "spec_required_declaration (c # cs) =
     ((case parameters_here (c # cs) of None \<Rightarrow> False | Some ps \<Rightarrow> 2 \<le> length ps)
      \<or> spec_required_declaration cs)"

subsection \<open>Concrete requests\<close>

text \<open>
  A server on which one identity has been paired and its transport has opened, a
  well-formed execute request for it with \<open>n\<close> iterations, and the runner whose calls
  settle as a list says (each taking 7 ms and logging nothing).
\<close>

definition example_env :: pair_env where
  "example_env = \<lparr>now = 0, open_error = None\<rparr>"

definition example_server :: server where
  "example_server =
     on_open 0 None
       (snd (pairing example_env (Some ''+62 812-3456-7890'') (Some ''client'') init))"

definition example_body :: "int \<Rightarrow> exec_body" where
  "example_body n =
     \<lparr>phone = Some ''6281234567890'',
      target = Some ''6289912345678'',
      code = Some ''async function kirim(sock, target) { await sock.sendText(target, 'halo'); }'',
      loop = Some n,
      delay = Some 0\<rparr>"

definition runs_of :: "settlement list \<Rightarrow> runner" where
  "runs_of xs = (\<lambda>machine text i.
     \<lparr>console_calls = [], elapsed = 7,
      settled = (if 1 \<le> i \<and> nat i \<le> length xs then xs ! (nat i - 1)
                 else Rejected (ErrorWith []))\<rparr>)"

text \<open>A script that throws \<^verbatim>\<open>null\<close> at its top level, before it declares its function.\<close>

definition null_throw_script :: string where
  "null_throw_script = ''throw null; async function kirim(sock, target) { }''"

text \<open>
  A script that names the two parameters in a comment only; its function takes none.
\<close>

definition comment_only_script :: string where
  "comment_only_script = ''async function kirim() { /* sock, target */ }''"

text \<open>The same identity paired twice before its transport has opened.\<close>

definition paired_twice :: server where
  "paired_twice =
     snd (pairing example_env (Some ''6281234567890'') (Some ''second'')
       (snd (pairing example_env (Some ''+62 812-3456-7890'') (Some ''first'') init)))"

text \<open>
  A transport that delivers to one recipient and fails for every other, and knows no
  status.
\<close>

definition example_transport :: transport where
  "example_transport =
     \<lparr>sendMessage = (\<lambda>to c. if to = ''6289912345678@s.whatsapp.net''
                               then Delivered ''3EB0A1B2C3'' else SendThrows ''Connection Closed''),
      fetchStatus = (\<lambda>jid. FetchThrows ''timed out'')\<rparr>"

section \<open>The loop, unfolded\<close>

lemma map_filter_append:
  "List.map_filter g (xs @ ys) = List.map_filter g xs @ List.map_filter g ys"
  by (simp add: List.map_filter_def)

lemma map_filter_concat:
  "List.map_filter g (concat xss) = concat (map (List.map_filter g) xss)"
  by (induction xss) (simp_all add: map_filter_append List.map_filter_simps)

lemma concat_singletons: "concat (map (\<lambda>j. [j]) xs) = xs"
  by (induction xs) simp_all

lemma results_iteration: "results (iteration sid tot r i s) = results s @ recorded i r"
  by (simp add: iteration_def caught_def recorded_def failure_of_def message_of_def Let_def
           split: settlement.splits returned.splits sum.splits)

lemma stopped_iteration:
  "stopped (iteration sid tot r i s) = (stopped s \<or> \<not> completes r)"
  by (auto simp: iteration_def caught_def completes_def goes_on_def readable_def stopped_def
           message_of_def Let_def
           split: settlement.splits returned.splits sum.splits thrown.splits)

lemma emitted_iteration:
  "completes r \<Longrightarrow>
   emitted (pause tot d i (iteration sid tot r i s)) = emitted s @ step_effects sid tot d i r"
  by (simp add: iteration_def caught_def reported_def failure_event_def step_effects_def
           pause_def completes_def goes_on_def readable_def message_of_def Let_def
           split: settlement.splits returned.splits sum.splits)

lemma results_pause: "results (pause tot d i s) = results s"
  by (simp add: pause_def)

lemma stopped_pause: "stopped (pause tot d i s) = stopped s"
  by (simp add: pause_def stopped_def)

lemma run_loop_settled:
  assumes "\<forall>j. i \<le> j \<and> j \<le> tot \<longrightarrow> completes (f j)" and "\<not> stopped s"
  shows "results (run_loop f sid tot d i s) =
           results s @ concat (map (\<lambda>j. recorded j (f j)) [i..tot]) \<and>
         emitted (run_loop f sid tot d i s) =
           emitted s @ concat (map (\<lambda>j. step_effects sid tot d j (f j)) [i..tot]) \<and>
         \<not> stopped (run_loop f sid tot d i s)"
  using assms
proof (induction f sid tot d i s rule: run_loop.induct)
  case (1 f sid tot d i s)
  show ?case
  proof (cases "i \<le> tot")
    case True
    have st: "completes (f i)" using True "1.prems"(1) by simp
    have w: "\<not> stopped (iteration sid tot (f i) i s)"
      using st "1.prems"(2) by (simp add: stopped_iteration)
    have w': "\<not> stopped (pause tot d i (iteration sid tot (f i) i s))"
      using w by (simp add: stopped_pause)
    have r: "\<forall>j. i + 1 \<le> j \<and> j \<le> tot \<longrightarrow> completes (f j)"
      using "1.prems"(1) by simp
    note ih = "1.IH" [OF True w r w']
    show ?thesis
      using True w ih
      by (subst (1 2 3) run_loop.simps)
         (simp add: upto_rec1 results_pause results_iteration emitted_iteration [OF st])
  next
    case False
    then show ?thesis using "1.prems"(2) by (subst (1 2 3) run_loop.simps) simp
  qed
qed

lemma execute_valid:
  assumes "validate b st = Inr (sk, jid, c, fnName)"
      and "\<forall>j \<in> {1..the_default 1 (loop b)}.
             completes (vm_run (new_VM sk jid sid) (script_text c fnName) j)"
  shows "execute vm_run b sid st =
     (Some (200, ExecBody (concat (map (\<lambda>j. recorded j
                                   (vm_run (new_VM sk jid sid) (script_text c fnName) j))
                          [1..the_default 1 (loop b)]))),
      st\<lparr>trace := trace st @
          concat (map (\<lambda>j. step_effects sid (the_default 1 (loop b))
                              (the_default 1000 (delay b)) j
                              (vm_run (new_VM sk jid sid) (script_text c fnName) j))
                   [1..the_default 1 (loop b)])\<rparr>)"
proof -
  have a: "\<forall>j. 1 \<le> j \<and> j \<le> the_default 1 (loop b) \<longrightarrow>
            completes (vm_run (new_VM sk jid sid) (script_text c fnName) j)"
    using assms(2) by simp
  have b: "\<not> stopped \<lparr>results = [], emitted = [], waiting = False, fault = None\<rparr>"
    by (simp add: stopped_def)
  note l = run_loop_settled [OF a b, of sid "the_default 1000 (delay b)"]
  show ?thesis using assms(1) l by (auto simp: execute_def Let_def stopped_def)
qed

lemma emitted_by_valid:
  assumes "validate b st = Inr (sk, jid, c, fnName)"
      and "\<forall>j \<in> {1..the_default 1 (loop b)}.
             completes (vm_run (new_VM sk jid sid) (script_text c fnName) j)"
  shows "emitted_by vm_run b sid st =
          concat (map (\<lambda>j. step_effects sid (the_default 1 (loop b))
                              (the_default 1000 (delay b)) j
                              (vm_run (new_VM sk jid sid) (script_text c fnName) j))
                   [1..the_default 1 (loop b)])"
  by (simp add: emitted_by_def execute_valid [where vm_run = vm_run and sid = sid, OF assms])

lemma progress_step: "completes r \<Longrightarrow> progress_indices (step_effects sid tot d i r) = [i]"
  by (simp add: progress_indices_def step_effects_def List.map_filter_def reported_def o_def
         failure_event_def completes_def goes_on_def readable_def
         split: settlement.splits returned.splits sum.splits)

lemma result_step: "completes r \<Longrightarrow> result_indices (step_effects sid tot d i r) = [i]"
  by (simp add: result_indices_def step_effects_def List.map_filter_def reported_def o_def
         failure_event_def completes_def goes_on_def readable_def
         split: settlement.splits returned.splits sum.splits)


lemma progress_concat:
  "\<forall>j \<in> set xs. completes (f j) \<Longrightarrow>
   progress_indices (concat (map (\<lambda>j. step_effects sid tot d j (f j)) xs)) = xs"
proof (induction xs)
  case Nil
  then show ?case by (simp add: progress_indices_def List.map_filter_simps)
next
  case (Cons a xs)
  then show ?case
    using progress_step [of "f a" sid tot d a]
    by (simp add: progress_indices_def map_filter_append)
qed

lemma result_concat:
  "\<forall>j \<in> set xs. completes (f j) \<Longrightarrow>
   result_indices (concat (map (\<lambda>j. step_effects sid tot d j (f j)) xs)) = xs"
proof (induction xs)
  case Nil
  then show ?case by (simp add: result_indices_def List.map_filter_simps)
next
  case (Cons a xs)
  then show ?case
    using result_step [of "f a" sid tot d a]
    by (simp add: result_indices_def map_filter_append)
qed

lemma runs_of_apply:
  "runs_of xs machine text i =
     \<lparr>console_calls = [], elapsed = 7,
      settled = (if 1 \<le> i \<and> nat i \<le> length xs then xs ! (nat i - 1)
                 else Rejected (ErrorWith []))\<rparr>"
  by (simp add: runs_of_def)

lemma runs_of_completes:
  assumes "list_all goes_on xs"
  shows "completes (runs_of xs machine text j)"
proof (cases "1 \<le> j \<and> nat j \<le> length xs")
  case True
  then have "nat j - 1 < length xs" by auto
  then have "xs ! (nat j - 1) \<in> set xs" by (rule nth_mem)
  with assms have "goes_on (xs ! (nat j - 1))" by (simp add: list_all_iff)
  with True show ?thesis by (simp add: runs_of_apply completes_def)
next
  case False
  then show ?thesis
    by (auto simp: runs_of_apply completes_def goes_on_def readable_def message_of_def)
qed

lemma execute_runs_of:
  assumes "validate b st = Inr (sk, jid, c, fnName)" and "list_all goes_on xs"
  shows "execute (runs_of xs) b sid st =
     (Some (200, ExecBody (concat (map (\<lambda>j. recorded j
                                   (runs_of xs (new_VM sk jid sid) (script_text c fnName) j))
                          [1..the_default 1 (loop b)]))),
      st\<lparr>trace := trace st @
          concat (map (\<lambda>j. step_effects sid (the_default 1 (loop b))
                              (the_default 1000 (delay b)) j
                              (runs_of xs (new_VM sk jid sid) (script_text c fnName) j))
                   [1..the_default 1 (loop b)])\<rparr>)"
  using execute_valid [where vm_run = "runs_of xs" and sid = sid, OF assms(1)]
    runs_of_completes [OF assms(2)]
  by simp

lemma emitted_by_runs_of:
  assumes "validate b st = Inr (sk, jid, c, fnName)" and "list_all goes_on xs"
  shows "emitted_by (runs_of xs) b sid st =
          concat (map (\<lambda>j. step_effects sid (the_default 1 (loop b))
                              (the_default 1000 (delay b)) j
                              (runs_of xs (new_VM sk jid sid) (script_text c fnName) j))
                   [1..the_default 1 (loop b)])"
  by (simp add: emitted_by_def execute_runs_of [OF assms])

text \<open>
  When every run completes, the progress events and the result events of a request
  are one per iteration each, in the order of the iterations.
\<close>

lemma completed_runs_events:
  assumes "validate b st = Inr (sk, jid, c, fnName)"
      and "\<forall>j \<in> {1..the_default 1 (loop b)}.
             completes (vm_run (new_VM sk jid sid) (script_text c fnName) j)"
  shows "progress_indices (emitted_by vm_run b sid st) = [1..the_default 1 (loop b)] \<and>
         result_indices (emitted_by vm_run b sid st) = [1..the_default 1 (loop b)] \<and>
         length (progress_indices (emitted_by vm_run b sid st)) = nat (the_default 1 (loop b)) \<and>
         length (result_indices (emitted_by vm_run b sid st)) = nat (the_default 1 (loop b))"
proof -
  note e = emitted_by_valid [where vm_run = vm_run and sid = sid, OF assms]
  have s: "\<forall>j \<in> set [1..the_default 1 (loop b)].
             completes (vm_run (new_VM sk jid sid) (script_text c fnName) j)"
    using assms(2) by simp
  have p: "progress_indices (emitted_by vm_run b sid st) = [1..the_default 1 (loop b)]"
    unfolding e by (rule progress_concat [OF s])
  have r: "result_indices (emitted_by vm_run b sid st) = [1..the_default 1 (loop b)]"
    unfolding e by (rule result_concat [OF s])
  show ?thesis by (simp add: p r)
qed




section \<open>The outcomes of the iterations\<close>







lemma serialisable_completes: "serialisable r \<Longrightarrow> completes r"
  by (simp add: serialisable_def completes_def goes_on_def
        split: settlement.splits returned.splits)





text \<open>
  The outcomes of iteration \<open>k\<close> in the sequence returned are those of its own run,
  whatever the other runs do.
\<close>

lemma filter_recorded:
  "filter (\<lambda>x. index x = k) (recorded j r) = (if j = k then recorded j r else [])"
  by (simp add: recorded_def failure_of_def split: settlement.splits returned.splits sum.splits)

lemma filter_concat_recorded:
  "distinct xs \<Longrightarrow>
   filter (\<lambda>x. index x = k) (concat (map (\<lambda>j. recorded j (f j)) xs)) =
     (if k \<in> set xs then recorded k (f k) else [])"
proof (induction xs)
  case Nil
  then show ?case by simp
next
  case (Cons a xs)
  then show ?case by (auto simp: filter_recorded)
qed

lemma outcomes_of_iteration:
  assumes "validate b st = Inr (sk, jid, c, fnName)"
      and "\<forall>j \<in> {1..the_default 1 (loop b)}.
             completes (vm_run (new_VM sk jid sid) (script_text c fnName) j)"
      and "1 \<le> k" and "k \<le> the_default 1 (loop b)"
  shows "\<exists>rs. fst (execute vm_run b sid st) = Some (200, ExecBody rs) \<and>
           filter (\<lambda>x. index x = k) rs =
             recorded k (vm_run (new_VM sk jid sid) (script_text c fnName) k)"
  using assms(3,4)
  by (simp add: execute_valid [where vm_run = vm_run and sid = sid, OF assms(1,2)]
        filter_concat_recorded)

section \<open>The registry invariant\<close>

lemma invariant_init: "registry_invariant init"
  by (simp add: registry_invariant_def init_def)

lemma digits_filter: "list_all digit (filter digit p)"
  by (simp add: list_all_iff)

lemma invariant_pairing_open:
  assumes "registry_invariant st" and "list_all digit k"
  shows "registry_invariant (snd (pairing_open env k sid st))"
  using assms unfolding registry_invariant_def pairing_open_def
  by (auto simp: nth_append split: option.splits intro: less_SucI)

lemma invariant_pairing:
  assumes "registry_invariant st"
  shows "registry_invariant (snd (pairing env p sid st))"
proof (cases p)
  case None
  then show ?thesis using assms by (simp add: pairing_def)
next
  case (Some q)
  show ?thesis
    using assms invariant_pairing_open [OF assms digits_filter, of env q sid]
    by (simp add: pairing_def Some Let_def split: option.splits)
qed

lemma sock_with_status: "sock (with_status old s) = (case old of None \<Rightarrow> None | Some r \<Rightarrow> sock r)"
  by (simp add: with_status_def split: option.splits)

lemma invariant_on_open:
  assumes "registry_invariant st"
  shows "registry_invariant (on_open h c st)"
  using assms unfolding registry_invariant_def on_open_def
  by (auto simp: Let_def sock_with_status split: option.splits)

lemma invariant_on_close:
  assumes "registry_invariant st"
  shows "registry_invariant (on_close h reason st)"
  using assms unfolding registry_invariant_def on_close_def
  by (auto simp: Let_def sock_with_status split: option.splits)

lemma invariant_reap:
  assumes "registry_invariant st"
  shows "registry_invariant (reap k st)"
  using assms unfolding registry_invariant_def reap_def
  by (auto split: option.splits if_splits)

lemma invariant_disconnect:
  assumes "registry_invariant st"
  shows "registry_invariant (snd (disconnect p st))"
  using assms unfolding registry_invariant_def disconnect_def
  by (auto simp: nth_list_update dest: set_update_subset_insert [THEN subsetD]
           split: option.splits if_splits)

lemma connections_execute: "connections (snd (execute vm_run b sid st)) = connections st"
  "socks (snd (execute vm_run b sid st)) = socks st"
  by (simp_all add: execute_def Let_def split: sum.splits prod.splits)

lemma invariant_execute:
  assumes "registry_invariant st"
  shows "registry_invariant (snd (execute vm_run b sid st))"
  using assms unfolding registry_invariant_def by (simp add: connections_execute)

lemma reachable_invariant: "reachable st \<Longrightarrow> registry_invariant st"
  by (induction rule: reachable.induct)
     (simp_all add: invariant_init invariant_pairing invariant_on_open invariant_on_close
        invariant_reap invariant_disconnect invariant_execute)

section \<open>The capability methods, unfolded\<close>

lemmas cap_defs = sendText_def sendMessage_cap_def sendImage_def sendVideo_def sendAudio_def
  sendContact_def sendLocation_def sendPoll_def react_def deleteMessage_def getUserStatus_def
  with_id_def without_id_def await_send_def

section \<open>The concrete requests, evaluated\<close>

lemma example_reachable: "reachable example_server"
  unfolding example_server_def by (intro reachable.intros)


lemma example_connected:
  "connections example_server ''6281234567890'' =
     Some \<lparr>sock = Some 0, saveCreds = Some ''auth/6281234567890'', status = Connected,
           socketId = Some ''client'', createdAt = Some 0\<rparr>"
  by (simp add: example_server_def example_env_def pairing_def pairing_open_def init_def
        on_open_def with_status_def digit_def authDir_def Let_def)

lemma example_valid:
  "validate (example_body n) example_server =
     Inr (Some 0, ''6289912345678@s.whatsapp.net'',
          ''async function kirim(sock, target) { await sock.sendText(target, 'halo'); }'',
          ''kirim'')"
  by (simp add: validate_def example_body_def example_connected match_here_def
        space_char_def word_char_def)

lemma example_loop: "loop (example_body n) = Some n" "delay (example_body n) = Some 0"
  by (simp_all add: example_body_def)

lemma comment_only_valid:
  "validate ((example_body 1)\<lparr>code := Some comment_only_script\<rparr>) example_server =
     Inr (Some 0, ''6289912345678@s.whatsapp.net'', comment_only_script, ''kirim'')"
  by (simp add: validate_def example_body_def example_connected match_here_def
        space_char_def word_char_def comment_only_script_def)

lemma null_throw_valid:
  "validate ((example_body n)\<lparr>code := Some null_throw_script\<rparr>) example_server =
     Inr (Some 0, ''6289912345678@s.whatsapp.net'', null_throw_script, ''kirim'')"
  by (simp add: validate_def example_body_def example_connected match_here_def
        space_char_def word_char_def null_throw_script_def)

text \<open>A run that never settles: the progress event is emitted, the request is not answered.\<close>

lemma pending_run_unanswered:
  "fst (execute (runs_of [Pending]) (example_body 2) (Some ''client'') example_server) = None \<and>
   emitted_by (runs_of [Pending]) (example_body 2) (Some ''client'') example_server =
     [Emit (Some ''client'') (Progress 1 2)]"
  by (simp add: execute_def emitted_by_def example_valid example_loop the_default_def
        run_loop.simps iteration_def runs_of_apply stopped_def Let_def)

section \<open>Properties\<close>

subsection \<open>The loop\<close>

text \<open>
  C2. An execute request that passes the checks before the loop, with loop count \<open>N\<close>,
  emits exactly \<open>N\<close> progress events and exactly \<open>N\<close> result events, whatever the
  iterations do. The \<^verbatim>\<open>catch\<close> of an iteration reads \<^verbatim>\<open>err.message\<close> of whatever was thrown: a
  script that throws \<^verbatim>\<open>null\<close> at its top level makes the \<^verbatim>\<open>catch\<close> itself throw, into the
  outer \<^verbatim>\<open>catch\<close> of the handler. Here the request has three iterations: it is answered
  with status 500 after the first progress event, and no result event is emitted.
\<close>

theorem null_throw_ends_request:
  "execute (runs_of [Rejected ThrownNull, Rejected ThrownNull, Rejected ThrownNull])
     ((example_body 3)\<lparr>code := Some null_throw_script\<rparr>) (Some ''client'') example_server =
     (Some (500, ErrorBody null_message),
      example_server\<lparr>trace := trace example_server @
         [Emit (Some ''client'') (Progress 1 3)]\<rparr>) \<and>
   progress_indices
     (emitted_by (runs_of [Rejected ThrownNull, Rejected ThrownNull, Rejected ThrownNull])
        ((example_body 3)\<lparr>code := Some null_throw_script\<rparr>) (Some ''client'')
        example_server) = [1] \<and>
   result_indices
     (emitted_by (runs_of [Rejected ThrownNull, Rejected ThrownNull, Rejected ThrownNull])
        ((example_body 3)\<lparr>code := Some null_throw_script\<rparr>) (Some ''client'')
        example_server) = []"
proof -
  let ?run = "runs_of [Rejected ThrownNull, Rejected ThrownNull, Rejected ThrownNull]"
  let ?b = "(example_body 3)\<lparr>code := Some null_throw_script\<rparr>"
  have e: "execute ?run ?b (Some ''client'') example_server =
     (Some (500, ErrorBody null_message),
      example_server\<lparr>trace := trace example_server @
         [Emit (Some ''client'') (Progress 1 3)]\<rparr>)"
    by (simp add: execute_def null_throw_valid example_loop the_default_def
          run_loop.simps iteration_def caught_def message_of_def runs_of_apply stopped_def
          Let_def)
  have m: "emitted_by ?run ?b (Some ''client'') example_server =
      [Emit (Some ''client'') (Progress 1 3)]"
    by (simp add: emitted_by_def e)
  show ?thesis
    by (simp add: e m progress_indices_def result_indices_def List.map_filter_simps)
qed

text \<open>
  C3. No error of a single iteration ends the request: the iterations after a failed one
  still run, and the outcome sequence returned has one entry per iteration. The
  handler pushes the success outcome before it serialises the value for the result
  event; when that throws, the \<^verbatim>\<open>catch\<close> pushes a failure outcome for the same iteration.
  Here the request has two iterations: the first rejects, the second returns
  \<^verbatim>\<open>undefined\<close>. Both run, and three outcomes are returned.
\<close>

theorem failed_iteration_then_undefined:
  "fst (execute (runs_of [Rejected (ErrorWith ''Gagal kirim: Connection Closed''),
                          Resolved NoJson]) (example_body 2)
          (Some ''client'') example_server) =
     Some (200, ExecBody [Failure 1 (Some ''Gagal kirim: Connection Closed''), Success 2 7,
                          Failure 2 (Some undefined_substring)]) \<and>
   length [Failure 1 (Some ''Gagal kirim: Connection Closed''), Success 2 7,
           Failure 2 (Some undefined_substring)] \<noteq> 2 \<and>
   emitted_by (runs_of [Rejected (ErrorWith ''Gagal kirim: Connection Closed''),
                        Resolved NoJson]) (example_body 2)
          (Some ''client'') example_server =
     [Emit (Some ''client'') (Progress 1 2),
      Emit (Some ''client'') (ResultFail 1 (Some ''Gagal kirim: Connection Closed'')),
      Sleep 0,
      Emit (Some ''client'') (Progress 2 2),
      Emit (Some ''client'') (ResultFail 2 (Some undefined_substring))]"
  by (simp add: execute_runs_of [OF example_valid] emitted_by_runs_of [OF example_valid]
        goes_on_def readable_def message_of_def
        example_loop the_default_def runs_of_apply recorded_def failure_of_def upto.simps
        step_effects_def reported_def failure_event_def)

text \<open>
  C9. A run that resolves with \<^verbatim>\<open>undefined\<close> is reported as a failure, and recorded as a
  failure, not as a success. The result event is a failure; \<^verbatim>\<open>results\<close> holds a success
  outcome and then a failure outcome for that iteration.
\<close>

theorem undefined_result_recorded_twice:
  "fst (execute (runs_of [Resolved NoJson]) (example_body 1) (Some ''client'') example_server) =
     Some (200, ExecBody [Success 1 7, Failure 1 (Some undefined_substring)]) \<and>
   emitted_by (runs_of [Resolved NoJson]) (example_body 1) (Some ''client'') example_server =
     [Emit (Some ''client'') (Progress 1 1),
      Emit (Some ''client'') (ResultFail 1 (Some undefined_substring))]"
  by (simp add: execute_runs_of [OF example_valid] emitted_by_runs_of [OF example_valid]
        goes_on_def
        example_loop the_default_def runs_of_apply recorded_def step_effects_def reported_def)




subsection \<open>Pairing and the registry\<close>

text \<open>
  C5. The pairing handler strips every character that is not a digit before it checks
  the identifier: its answer and its effect depend on the digits only, and an
  identifier with fewer than 10 or more than 15 digits is answered with status 400
  and the error \<^verbatim>\<open>Nomor tidak valid\<close>, the server unchanged (no credential store, no
  socket, no registry entry).
\<close>

theorem pairing_identifier:
  "(length (filter digit p) < 10 \<or> 15 < length (filter digit p) \<longrightarrow>
      pairing env (Some p) sid st = ((400, ErrorBody ''Nomor tidak valid''), st)) \<and>
   (filter digit p = filter digit q \<longrightarrow>
      pairing env (Some p) sid st = pairing env (Some q) sid st)"
  by (simp add: pairing_def Let_def)

theorem pairing_identifier_witness:
  "pairing example_env (Some ''+62 812-3456'') (Some ''client'') init =
     ((400, ErrorBody ''Nomor tidak valid''), init) \<and>
   pairing example_env (Some ''+62 812-3456-7890'') (Some ''client'') init =
     pairing example_env (Some ''6281234567890'') (Some ''client'') init \<and>
   fst (pairing example_env (Some ''+62 812-3456-7890'') (Some ''client'') init) =
     (200, PairBody ''Pairing initiated'' ''6281234567890'')"
  using pairing_identifier [of "''+62 812-3456''" example_env "Some ''client''" init
      "''+62 812-3456''"]
    pairing_identifier [of "''+62 812-3456-7890''" example_env "Some ''client''" init
      "''6281234567890''"]
  by (simp add: digit_def pairing_def pairing_open_def example_env_def init_def Let_def)

text \<open>
  C6, as stated: at most one live transport handle per identity key at any time.
  Two pairing requests for one identity, the second before the transport of the first
  has opened, leave two handles for the key, neither of them ended.
\<close>

theorem two_live_handles_for_one_key:
  "reachable paired_twice \<and>
   live_handles paired_twice ''6281234567890'' =
     [\<lparr>owner = ''6281234567890'', listener = Some ''first'', ended = False\<rparr>,
      \<lparr>owner = ''6281234567890'', listener = Some ''second'', ended = False\<rparr>] \<and>
   \<not> length (live_handles paired_twice ''6281234567890'') \<le> 1"
proof -
  have "reachable paired_twice"
    unfolding paired_twice_def by (intro reachable.intros)
  moreover have "live_handles paired_twice ''6281234567890'' =
     [\<lparr>owner = ''6281234567890'', listener = Some ''first'', ended = False\<rparr>,
      \<lparr>owner = ''6281234567890'', listener = Some ''second'', ended = False\<rparr>]"
    by (simp add: paired_twice_def live_handles_def pairing_def pairing_open_def
          example_env_def init_def digit_def Let_def)
  ultimately show ?thesis by simp
qed

text \<open>
  C6, amended. In every reachable state the registry holds for a key at most one
  session record (it is a map), and the handle the record names was opened for that
  key. A pairing request for an identity whose record is connected answers
  \<^verbatim>\<open>Already connected\<close> and leaves the server as it is: no handle is opened, the registry
  is not written. A pairing request for an identity whose record is not connected
  opens one more handle, leaves all earlier handles as they are, and makes the record
  name the new handle.
\<close>

theorem pairing_sessions:
  assumes "reachable st"
  shows "(connections st k = Some r \<and> sock r = Some h \<longrightarrow>
            h < length (socks st) \<and> owner (socks st ! h) = k) \<and>
         (10 \<le> length (filter digit p) \<and> length (filter digit p) \<le> 15 \<and>
          connections st (filter digit p) = Some r \<and> status r = Connected \<longrightarrow>
            pairing env (Some p) sid st =
              ((200, PairBody ''Already connected'' (filter digit p)), st)) \<and>
         (10 \<le> length (filter digit p) \<and> length (filter digit p) \<le> 15 \<and>
          connections st (filter digit p) = Some r \<and> status r \<noteq> Connected \<and>
          open_error env = None \<longrightarrow>
            socks (snd (pairing env (Some p) sid st)) =
              socks st @ [\<lparr>owner = filter digit p, listener = sid, ended = False\<rparr>] \<and>
            map_option sock (connections (snd (pairing env (Some p) sid st)) (filter digit p)) =
              Some (Some (length (socks st))))"
proof -
  have "connections st k = Some r \<and> sock r = Some h \<longrightarrow>
            h < length (socks st) \<and> owner (socks st ! h) = k"
    using reachable_invariant [OF assms] by (auto simp: registry_invariant_def)
  then show ?thesis
    by (simp add: pairing_def pairing_open_def Let_def)
qed

theorem pairing_sessions_witness:
  "reachable example_server \<and>
   pairing example_env (Some ''+62 812-3456-7890'') (Some ''other'') example_server =
     ((200, PairBody ''Already connected'' ''6281234567890''), example_server) \<and>
   pairing example_env (Some ''6281234567890'') (Some ''other'')
     (snd (pairing example_env (Some ''+62 812-3456-7890'') (Some ''other'') example_server)) =
     ((200, PairBody ''Already connected'' ''6281234567890''), example_server) \<and>
   socks example_server = [\<lparr>owner = ''6281234567890'', listener = Some ''client'', ended = False\<rparr>]"
proof -
  have f: "filter digit ''+62 812-3456-7890'' = ''6281234567890''"
       "filter digit ''6281234567890'' = ''6281234567890''"
    by (simp_all add: digit_def)
  have s: "socks example_server =
      [\<lparr>owner = ''6281234567890'', listener = Some ''client'', ended = False\<rparr>]"
    by (simp add: example_server_def example_env_def pairing_def pairing_open_def init_def
        on_open_def digit_def Let_def)
  note r = example_connected
  have a: "pairing example_env (Some ''+62 812-3456-7890'') (Some ''other'') example_server =
     ((200, PairBody ''Already connected'' ''6281234567890''), example_server)"
    using pairing_sessions [OF example_reachable, of "''6281234567890''"
        "\<lparr>sock = Some 0, saveCreds = Some ''auth/6281234567890'', status = Connected,
           socketId = Some ''client'', createdAt = Some 0\<rparr>" 0 "''+62 812-3456-7890''"
        example_env "Some ''other''", unfolded f] r
    by simp
  have b: "pairing example_env (Some ''6281234567890'') (Some ''other'') example_server =
     ((200, PairBody ''Already connected'' ''6281234567890''), example_server)"
    using pairing_sessions [OF example_reachable, of "''6281234567890''"
        "\<lparr>sock = Some 0, saveCreds = Some ''auth/6281234567890'', status = Connected,
           socketId = Some ''client'', createdAt = Some 0\<rparr>" 0 "''6281234567890''"
        example_env "Some ''other''", unfolded f] r
    by simp
  show ?thesis
    by (simp only: a b s example_reachable snd_conv simp_thms)
qed

text \<open>
  C10. The execute handler looks the session up under the identity key as the caller
  wrote it. Registry keys are digit strings, so a key with any other character in it
  finds no session and the request is answered with status 400 and the error
  \<^verbatim>\<open>WhatsApp tidak terhubung\<close>, the server unchanged; so also when the session stored under
  the digits of the key is connected.
\<close>

theorem execute_key_verbatim:
  assumes "reachable st" and "phone b = Some p" and "\<not> list_all digit p"
  shows "execute vm_run b sid st = (Some not_connected, st)"
proof -
  have "connections st p = None"
    using reachable_invariant [OF assms(1)] assms(3)
    by (cases "connections st p") (auto simp: registry_invariant_def)
  then show ?thesis
    by (simp add: execute_def validate_def assms(2))
qed

theorem execute_key_verbatim_witness:
  "reachable example_server \<and>
   filter digit ''+62 812-3456-7890'' = ''6281234567890'' \<and>
   map_option status (connections example_server ''6281234567890'') = Some Connected \<and>
   execute (runs_of []) ((example_body 1)\<lparr>phone := Some ''+62 812-3456-7890''\<rparr>)
     (Some ''client'') example_server = (Some not_connected, example_server)"
  using execute_key_verbatim [OF example_reachable, of
      "(example_body 1)\<lparr>phone := Some ''+62 812-3456-7890''\<rparr>" "''+62 812-3456-7890''"
      "runs_of []" "Some ''client''"]
  by (simp add: example_reachable example_connected digit_def)

subsection \<open>The script and its sandbox\<close>

text \<open>
  C8, as stated: a script without an async function declaration whose parameter list
  has a capability parameter and a target parameter is rejected as malformed. The
  handler looks for the two texts \<^verbatim>\<open>async function\<close> and \<^verbatim>\<open>sock, target\<close> anywhere in the
  script: a script whose function takes no parameter and which has \<^verbatim>\<open>sock, target\<close> in a
  comment passes, the sandbox is built and the loop runs.
\<close>

theorem script_without_parameters_accepted:
  "\<not> spec_required_declaration comment_only_script \<and>
   fst (execute (runs_of [Resolved NoJson])
          ((example_body 1)\<lparr>code := Some comment_only_script\<rparr>) (Some ''client'')
          example_server) =
     Some (200, ExecBody [Success 1 7, Failure 1 (Some undefined_substring)]) \<and>
   (200, ExecBody [Success 1 7, Failure 1 (Some undefined_substring)]) \<noteq> malformed_script"
proof -
  have a: "\<not> spec_required_declaration comment_only_script"
    by (simp add: comment_only_script_def parameters_here_def match_here_def
          space_char_def word_char_def)
  have b: "fst (execute (runs_of [Resolved NoJson])
          ((example_body 1)\<lparr>code := Some comment_only_script\<rparr>) (Some ''client'')
          example_server) =
     Some (200, ExecBody [Success 1 7, Failure 1 (Some undefined_substring)])"
    by (simp add: execute_runs_of [OF comment_only_valid] example_loop the_default_def
          runs_of_apply recorded_def goes_on_def)
  show ?thesis using a b by (simp add: malformed_script_def)
qed

text \<open>
  C8, amended. For a connected session and a request with a target and a script: a
  script whose text does not contain \<^verbatim>\<open>async function\<close>, or does not contain
  \<^verbatim>\<open>sock, target\<close>, is answered with status 400 and the format error; a script that
  contains both but in which \<^verbatim>\<open>async function\<close> is nowhere followed by white space and a
  word character is answered with status 400 and a different error, the name not
  found; every other script passes with the name found. Both rejections are the
  response of the request itself and leave the server unchanged: no sandbox is built,
  nothing is emitted.
\<close>

theorem script_shape_gate:
  assumes "phone b = Some p" and "connections st p = Some r" and "status r = Connected"
      and "target b = Some t" and "code b = Some c"
  shows "(\<not> str_includes c ''async function'' \<or> \<not> str_includes c ''sock, target'' \<longrightarrow>
            execute vm_run b sid st = (Some malformed_script, st)) \<and>
         (str_includes c ''async function'' \<and> str_includes c ''sock, target'' \<and>
          fnMatch c = None \<longrightarrow>
            execute vm_run b sid st = (Some name_not_found, st)) \<and>
         (str_includes c ''async function'' \<and> str_includes c ''sock, target'' \<and>
          fnMatch c = Some fnName \<longrightarrow>
            (\<exists>jid. validate b st = Inr (sock r, jid, c, fnName))) \<and>
         malformed_script \<noteq> name_not_found \<and>
         fst malformed_script = 400 \<and> fst name_not_found = 400"
  using assms
  by (auto simp: execute_def validate_def Let_def malformed_script_def name_not_found_def)

theorem script_shape_gate_witness:
  "execute (runs_of []) ((example_body 1)\<lparr>code := Some ''async function kirim(sock,target) { }''\<rparr>)
     (Some ''client'') example_server = (Some malformed_script, example_server) \<and>
   execute (runs_of []) ((example_body 1)\<lparr>code := Some ''async function (sock, target) { }''\<rparr>)
     (Some ''client'') example_server = (Some name_not_found, example_server) \<and>
   (\<exists>jid. validate (example_body 1) example_server =
      Inr (Some 0, jid,
           ''async function kirim(sock, target) { await sock.sendText(target, 'halo'); }'',
           ''kirim''))"
proof -
  let ?r = "\<lparr>sock = Some 0, saveCreds = Some ''auth/6281234567890'', status = Connected,
           socketId = Some ''client'', createdAt = Some 0\<rparr>"
  have a: "execute (runs_of [])
       ((example_body 1)\<lparr>code := Some ''async function kirim(sock,target) { }''\<rparr>)
       (Some ''client'') example_server = (Some malformed_script, example_server)"
    using script_shape_gate [where b = "(example_body 1)\<lparr>code := Some ''async function kirim(sock,target) { }''\<rparr>"
        and p = "''6281234567890''" and st = example_server and r = ?r
        and t = "''6289912345678''" and c = "''async function kirim(sock,target) { }''"
        and vm_run = "runs_of []" and sid = "Some ''client''"]
    by (simp add: example_connected example_body_def)
  have b: "execute (runs_of [])
       ((example_body 1)\<lparr>code := Some ''async function (sock, target) { }''\<rparr>)
       (Some ''client'') example_server = (Some name_not_found, example_server)"
    using script_shape_gate [where b = "(example_body 1)\<lparr>code := Some ''async function (sock, target) { }''\<rparr>"
        and p = "''6281234567890''" and st = example_server and r = ?r
        and t = "''6289912345678''" and c = "''async function (sock, target) { }''"
        and vm_run = "runs_of []" and sid = "Some ''client''"]
    by (simp add: example_connected example_body_def match_here_def space_char_def word_char_def)
  have c: "\<exists>jid. validate (example_body 1) example_server =
      Inr (Some 0, jid,
           ''async function kirim(sock, target) { await sock.sendText(target, 'halo'); }'',
           ''kirim'')"
    using script_shape_gate [where b = "example_body 1"
        and p = "''6281234567890''" and st = example_server and r = ?r
        and t = "''6289912345678''"
        and c = "''async function kirim(sock, target) { await sock.sendText(target, 'halo'); }''"
        and fnName = "''kirim''"]
    by (simp add: example_connected example_body_def match_here_def space_char_def word_char_def)
  show ?thesis using a b c by blast
qed




subsection \<open>The capability methods\<close>

text \<open>
  C7. A call of a method of the send family (\<^verbatim>\<open>sendText\<close>, \<^verbatim>\<open>sendMessage\<close>, \<^verbatim>\<open>sendImage\<close>,
  \<^verbatim>\<open>sendVideo\<close>, \<^verbatim>\<open>sendAudio\<close>, \<^verbatim>\<open>sendContact\<close>, \<^verbatim>\<open>sendLocation\<close>, \<^verbatim>\<open>sendPoll\<close>) either returns
  \<^verbatim>\<open>{success: true, id}\<close> with the id of a message the transport delivered to the
  recipient, or throws a new error whose message is the method's own words followed
  by something; when the transport throws, by the transport's message. The call
  settles whenever the transport's does. \<^verbatim>\<open>getUserStatus\<close> never throws: it returns
  \<^verbatim>\<open>{status: 'unknown'}\<close> when there is no handle, when the lookup throws and when it
  finds nothing.
\<close>

theorem capability_results:
  "(send_family c \<and> invoke sk c = Some (Inr v) \<longrightarrow>
      (\<exists>i t k. v = Sent i \<and> sk = Some t \<and> sendMessage t (recipient c) k = Delivered i)) \<and>
   (send_family c \<and> invoke sk c = Some (Inl e) \<longrightarrow>
      (\<exists>m. e = failed_operation c @ m) \<and> failed_operation c \<noteq> []) \<and>
   (send_family c \<and> sk = Some t \<and> (\<forall>k. sendMessage t (recipient c) k = SendThrows m) \<longrightarrow>
      invoke sk c = Some (Inl (failed_operation c @ m))) \<and>
   (send_family c \<and> sk = Some t \<and> (\<forall>k. sendMessage t (recipient c) k \<noteq> SendPending) \<longrightarrow>
      invoke sk c \<noteq> None) \<and>
   invoke sk (CallGetUserStatus j) \<noteq> Some (Inl e) \<and>
   (sk = None \<or> (sk = Some t \<and> fetchStatus t j = FetchThrows m) \<or>
    (sk = Some t \<and> fetchStatus t j = NoStatus) \<longrightarrow>
      invoke sk (CallGetUserStatus j) = Some (Inr UnknownStatus))"
proof -
  have a: "send_family c \<and> invoke sk c = Some (Inr v) \<longrightarrow>
      (\<exists>i t k. v = Sent i \<and> sk = Some t \<and> sendMessage t (recipient c) k = Delivered i)"
    by (cases c) (auto simp: send_family_def cap_defs split: sent.splits option.splits)
  have b: "send_family c \<and> invoke sk c = Some (Inl e) \<longrightarrow>
      (\<exists>m. e = failed_operation c @ m) \<and> failed_operation c \<noteq> []"
    by (cases c) (auto simp: send_family_def cap_defs split: sent.splits option.splits)
  have c: "send_family c \<and> sk = Some t \<and> (\<forall>k. sendMessage t (recipient c) k = SendThrows m) \<longrightarrow>
      invoke sk c = Some (Inl (failed_operation c @ m))"
    by (cases c) (auto simp: send_family_def cap_defs split: sent.splits option.splits)
  have p: "send_family c \<and> sk = Some t \<and> (\<forall>k. sendMessage t (recipient c) k \<noteq> SendPending) \<longrightarrow>
      invoke sk c \<noteq> None"
    by (cases c) (auto simp: send_family_def cap_defs split: sent.splits option.splits)
  have d: "invoke sk (CallGetUserStatus j) \<noteq> Some (Inl e)"
    by (simp add: getUserStatus_def split: option.splits fetched.splits)
  have e: "sk = None \<or> (sk = Some t \<and> fetchStatus t j = FetchThrows m) \<or>
    (sk = Some t \<and> fetchStatus t j = NoStatus) \<longrightarrow>
      invoke sk (CallGetUserStatus j) = Some (Inr UnknownStatus)"
    by (auto simp: getUserStatus_def split: option.splits fetched.splits)
  show ?thesis using a b c p d e by blast
qed

theorem capability_results_witness:
  "send_family (CallSendImage ''6289912345678@s.whatsapp.net'' ''https://example.org/a.png'' None) \<and>
   invoke (Some example_transport)
     (CallSendImage ''6289912345678@s.whatsapp.net'' ''https://example.org/a.png'' None) =
     Some (Inr (Sent ''3EB0A1B2C3'')) \<and>
   send_family (CallSendText ''620000000000@s.whatsapp.net'' ''halo'') \<and>
   (\<forall>k. sendMessage example_transport ''620000000000@s.whatsapp.net'' k =
      SendThrows ''Connection Closed'') \<and>
   invoke (Some example_transport) (CallSendText ''620000000000@s.whatsapp.net'' ''halo'') =
     Some (Inl ''Gagal kirim: Connection Closed'') \<and>
   fetchStatus example_transport ''620000000000@s.whatsapp.net'' = FetchThrows ''timed out'' \<and>
   invoke (Some example_transport) (CallGetUserStatus ''620000000000@s.whatsapp.net'') =
     Some (Inr UnknownStatus)"
proof -
  have s: "send_family (CallSendImage ''6289912345678@s.whatsapp.net''
             ''https://example.org/a.png'' None)"
          "send_family (CallSendText ''620000000000@s.whatsapp.net'' ''halo'')"
    by (simp_all add: send_family_def)
  have t: "\<forall>k. sendMessage example_transport ''620000000000@s.whatsapp.net'' k =
      SendThrows ''Connection Closed''"
    by (simp add: example_transport_def)
  have f: "fetchStatus example_transport ''620000000000@s.whatsapp.net'' =
      FetchThrows ''timed out''"
    by (simp add: example_transport_def)
  have i: "invoke (Some example_transport)
     (CallSendImage ''6289912345678@s.whatsapp.net'' ''https://example.org/a.png'' None) =
     Some (Inr (Sent ''3EB0A1B2C3''))"
    by (simp add: cap_defs example_transport_def)
  have a: "invoke (Some example_transport)
      (CallSendText ''620000000000@s.whatsapp.net'' ''halo'') =
      Some (Inl ''Gagal kirim: Connection Closed'')"
    using capability_results [where c = "CallSendText ''620000000000@s.whatsapp.net'' ''halo''"
        and sk = "Some example_transport" and t = example_transport
        and m = "''Connection Closed''"] s t
    by simp
  have b: "invoke (Some example_transport) (CallGetUserStatus ''620000000000@s.whatsapp.net'') =
      Some (Inr UnknownStatus)"
    using capability_results [where sk = "Some example_transport" and t = example_transport
        and j = "''620000000000@s.whatsapp.net''" and m = "''timed out''"] f
    by simp
  show ?thesis using s t f i a b by simp
qed

end

